theory Spec2Isabelle
  imports Main "HOL-Library.Word" "HOL-Library.Stream"
begin

unbundle bit_operations_syntax

section \<open>LBRY address generator: data model\<close>

text \<open>
  The program is the class \<open>LBRYAddressGenerator\<close> of \<open>index.js\<close>. A Node.js
  \<open>Buffer\<close> is a list of bytes, a JavaScript string a list of characters, a
  \<open>BigInt\<close> an unbounded integer. A thrown exception is the left summand of the
  result: \<open>Error msg\<close> is \<open>new Error(msg)\<close>, \<open>SyntaxError msg\<close> the exception
  the \<open>BigInt\<close> constructor raises on a string that is no integer literal.
\<close>

type_synonym byte = "8 word"
type_synonym buffer = "byte list"

datatype error = Error string | SyntaxError string

text \<open>
  The two modules the file requires are not part of the program. Their functions
  are parameters of the model: \<open>crypto.createHash(h).update(d).digest()\<close> for
  the two digests used, and the two functions of \<open>secp256k1\<close>. The model follows
  \<open>secp256k1\<close> from its version 4 on: \<open>publicKeyCreate\<close> returns a
  \<open>Uint8Array\<close>, and \<open>privateKeyVerify\<close> is the module's function on buffers of
  32 bytes (on a buffer of another length the module throws an error of its own, which
  the model does not follow: the statements about \<open>getPublicKey\<close> alone are about
  keys of 32 bytes, \<open>fromPrivateKey\<close> checks the length before the call, and
  \<open>generatePrivateKey\<close> draws 32 bytes).
\<close>

record crypto =
  sha256 :: "buffer \<Rightarrow> buffer"
  ripemd160 :: "buffer \<Rightarrow> buffer"

record secp256k1 =
  privateKeyVerify :: "buffer \<Rightarrow> bool"
  publicKeyCreate :: "buffer \<Rightarrow> buffer"

text \<open>
  What the two modules promise about the shape of their results: a SHA-256 digest has
  32 bytes, a RIPEMD-160 digest 20, a key that verifies has 32 bytes and its
  compressed public key 33.
\<close>

definition crypto_contract :: "crypto \<Rightarrow> bool" where
  "crypto_contract c \<longleftrightarrow>
     (\<forall>d. length (sha256 c d) = 32) \<and> (\<forall>d. length (ripemd160 c d) = 20)"

definition secp256k1_contract :: "secp256k1 \<Rightarrow> bool" where
  "secp256k1_contract s \<longleftrightarrow>
     (\<forall>k. privateKeyVerify s k \<longrightarrow> length k = 32 \<and> length (publicKeyCreate s k) = 33)"

text \<open>
  \<open>crypto.randomBytes(n)\<close> reads the platform's entropy source, the only state of the
  program: an endless stream of bytes, of which a call takes the next \<open>n\<close>.
\<close>

definition randomBytes :: "nat \<Rightarrow> byte stream \<Rightarrow> buffer \<times> byte stream" where
  "randomBytes n rnd = (stake n rnd, sdrop n rnd)"

text \<open>The object the constructor builds: its two instance fields.\<close>

record LBRYAddressGenerator =
  MAINNET_PREFIX :: int
  TESTNET_PREFIX :: int

definition new_LBRYAddressGenerator :: LBRYAddressGenerator where
  "new_LBRYAddressGenerator = \<lparr>MAINNET_PREFIX = 0x55, TESTNET_PREFIX = 0x6f\<rparr>"

section \<open>Keys\<close>

text \<open>
  \<open>generatePrivateKey\<close> draws 32 bytes until \<open>privateKeyVerify\<close> accepts them. The
  loop has no bound, so the model is a partial function: \<open>None\<close> is a run that never
  leaves the loop. The result carries the entropy left over.
\<close>

partial_function (option) generatePrivateKey ::
  "secp256k1 \<Rightarrow> byte stream \<Rightarrow> (buffer \<times> byte stream) option" where
  "generatePrivateKey secp rnd =
     (case randomBytes 32 rnd of (privateKey, rnd') \<Rightarrow>
        if \<not> privateKeyVerify secp privateKey then generatePrivateKey secp rnd'
        else Some (privateKey, rnd'))"

definition getPublicKey :: "secp256k1 \<Rightarrow> buffer \<Rightarrow> error + buffer" where
  "getPublicKey secp privateKey =
     (if \<not> privateKeyVerify secp privateKey then Inl (Error ''Invalid private key'')
      else Inr (publicKeyCreate secp privateKey))"

section \<open>Digests\<close>

definition hash160 :: "crypto \<Rightarrow> buffer \<Rightarrow> buffer" where
  "hash160 c data = (let sha256Hash = sha256 c data in ripemd160 c sha256Hash)"

definition doubleSha256 :: "crypto \<Rightarrow> buffer \<Rightarrow> buffer" where
  "doubleSha256 c data = (let firstHash = sha256 c data in sha256 c firstHash)"

section \<open>Hexadecimal text\<close>

text \<open>
  \<open>buf.toString('hex')\<close> writes two lower-case digits per byte.
  \<open>Buffer.from(s, 'hex')\<close> reads two digits per byte, in either case, and stops at
  the first pair that is not two hexadecimal digits or at a single last character;
  it never throws.
\<close>

definition hexDigit :: "nat \<Rightarrow> char" where
  "hexDigit n = ''0123456789abcdef'' ! n"

definition toString_hex :: "buffer \<Rightarrow> string" where
  "toString_hex data =
     concat (map (\<lambda>b. [hexDigit (unat b div 16), hexDigit (unat b mod 16)]) data)"

definition hexValue :: "char \<Rightarrow> nat option" where
  "hexValue ch =
     (let n = of_char ch :: nat in
      if 48 \<le> n \<and> n \<le> 57 then Some (n - 48)
      else if 97 \<le> n \<and> n \<le> 102 then Some (n - 87)
      else if 65 \<le> n \<and> n \<le> 70 then Some (n - 55)
      else None)"

fun Buffer_from_hex :: "string \<Rightarrow> buffer" where
  "Buffer_from_hex (a # b # rest) =
     (case (hexValue a, hexValue b) of
        (Some hi, Some lo) \<Rightarrow> of_nat (16 * hi + lo) # Buffer_from_hex rest
      | _ \<Rightarrow> [])"
| "Buffer_from_hex _ = []"

text \<open>
  A \<open>Uint8Array\<close> is no \<open>Buffer\<close>: its \<open>toString\<close> takes no encoding and
  writes the bytes in decimal, separated by commas.
\<close>

definition byte_decimal :: "byte \<Rightarrow> string" where
  "byte_decimal b =
     (let n = unat b in
      (if 100 \<le> n then [''0123456789'' ! (n div 100)] else [])
        @ (if 10 \<le> n then [''0123456789'' ! (n div 10 mod 10)] else [])
        @ [''0123456789'' ! (n mod 10)])"

definition Uint8Array_toString :: "buffer \<Rightarrow> string" where
  "Uint8Array_toString a =
     (case a of
        [] \<Rightarrow> []
      | b # bs \<Rightarrow> byte_decimal b @ concat (map (\<lambda>x. CHR '','' # byte_decimal x) bs))"

text \<open>
  \<open>BigInt('0x' + digits)\<close>: the value of the hexadecimal literal, and a
  \<open>SyntaxError\<close> when \<open>0x\<close> is followed by no digit or by anything that is not one.
\<close>

fun hexLiteral :: "int \<Rightarrow> string \<Rightarrow> int option" where
  "hexLiteral acc [] = Some acc"
| "hexLiteral acc (ch # rest) =
     (case hexValue ch of
        None \<Rightarrow> None
      | Some d \<Rightarrow> hexLiteral (16 * acc + int d) rest)"

definition BigInt_0x :: "string \<Rightarrow> error + int" where
  "BigInt_0x digits =
     (if digits = [] then Inl (SyntaxError ''Cannot convert 0x to a BigInt'')
      else case hexLiteral 0 digits of
        None \<Rightarrow> Inl (SyntaxError (''Cannot convert 0x'' @ digits @ '' to a BigInt''))
      | Some num \<Rightarrow> Inr num)"

section \<open>Base 58\<close>

definition alphabet :: string where
  "alphabet = ''123456789ABCDEFGHJKLMNPQRSTUVWXYZabcdefghijkmnopqrstuvwxyz''"

text \<open>The \<open>while (num > 0)\<close> loop of \<open>base58Encode\<close>, on its two variables.\<close>

function base58_while :: "int \<Rightarrow> string \<Rightarrow> string" where
  "base58_while num result =
     (if num > 0 then
        (let remainder = num mod 58 in
         base58_while (num div 58) (alphabet ! nat remainder # result))
      else result)"
  by pat_completeness auto
termination
  by (relation "measure (\<lambda>(num, result). nat num)") auto

declare base58_while.simps [simp del]

text \<open>
  The \<open>for\<close> loop that follows: one \<open>1\<close> in front of the result for each zero byte
  at the start of the data. The first argument is the data from index \<open>i\<close> on.
\<close>

fun base58_for :: "buffer \<Rightarrow> string \<Rightarrow> string" where
  "base58_for [] result = result"
| "base58_for (b # rest) result =
     (if b = 0 then base58_for rest (CHR ''1'' # result) else result)"

definition base58Encode :: "buffer \<Rightarrow> error + string" where
  "base58Encode data =
     (case BigInt_0x (toString_hex data) of
        Inl e \<Rightarrow> Inl e
      | Inr num \<Rightarrow> Inr (base58_for data (base58_while num [])))"

section \<open>Addresses\<close>

definition createAddress ::
  "LBRYAddressGenerator \<Rightarrow> crypto \<Rightarrow> buffer \<Rightarrow> bool \<Rightarrow> error + string" where
  "createAddress this c publicKey testnet =
     (let publicKeyHash = hash160 c publicKey;
          prefix = (if testnet then TESTNET_PREFIX this else MAINNET_PREFIX this);
          prefixedHash = [word_of_int prefix] @ publicKeyHash;
          checksum = take 4 (doubleSha256 c prefixedHash);
          fullAddress = prefixedHash @ checksum
      in base58Encode fullAddress)"

definition validateAddress :: "string \<Rightarrow> bool" where
  "validateAddress address =
     (if length address < 26 \<or> length address > 35 then False
      else if \<not> (case address of [] \<Rightarrow> False
                 | ch # _ \<Rightarrow> ch = CHR ''b'' \<or> ch = CHR ''m'' \<or> ch = CHR ''1'') then False
      else True)"

section \<open>Wallets\<close>

text \<open>
  The object both wallet functions return. Its fields carry the names of the source;
  the local variables of the two functions are written \<open>sk\<close>, \<open>pk\<close> and \<open>addr\<close>.
  The private key is a \<open>Buffer\<close> and \<open>toString('hex')\<close> writes it in
  hexadecimal; the public key is the \<open>Uint8Array\<close> of \<open>publicKeyCreate\<close>, on
  which the same call writes decimal numbers.
\<close>

record wallet =
  privateKey :: string
  publicKey :: string
  address :: string
  network :: string

definition generateWallet ::
  "LBRYAddressGenerator \<Rightarrow> crypto \<Rightarrow> secp256k1 \<Rightarrow> bool \<Rightarrow> byte stream \<Rightarrow>
     ((error + wallet) \<times> byte stream) option" where
  "generateWallet this c secp testnet rnd =
     (case generatePrivateKey secp rnd of
        None \<Rightarrow> None
      | Some (sk, rnd') \<Rightarrow>
          Some (case getPublicKey secp sk of
                  Inl e \<Rightarrow> Inl e
                | Inr pk \<Rightarrow>
                    (case createAddress this c pk testnet of
                       Inl e \<Rightarrow> Inl e
                     | Inr addr \<Rightarrow>
                         Inr \<lparr>privateKey = toString_hex sk,
                              publicKey = Uint8Array_toString pk,
                              address = addr,
                              network = (if testnet then ''testnet'' else ''mainnet'')\<rparr>),
                rnd'))"

text \<open>The argument of \<open>fromPrivateKey\<close> is a string or a buffer.\<close>

datatype key_input = Str string | Buf buffer

definition fromPrivateKey ::
  "LBRYAddressGenerator \<Rightarrow> crypto \<Rightarrow> secp256k1 \<Rightarrow> key_input \<Rightarrow> bool \<Rightarrow> error + wallet" where
  "fromPrivateKey this c secp privateKeyHex testnet =
     (let sk = (case privateKeyHex of Str s \<Rightarrow> Buffer_from_hex s | Buf b \<Rightarrow> b) in
      if length sk \<noteq> 32 then Inl (Error ''Private key must be 32 bytes'')
      else
        (case getPublicKey secp sk of
           Inl e \<Rightarrow> Inl e
         | Inr pk \<Rightarrow>
             (case createAddress this c pk testnet of
                Inl e \<Rightarrow> Inl e
              | Inr addr \<Rightarrow>
                  Inr \<lparr>privateKey = toString_hex sk,
                       publicKey = Uint8Array_toString pk,
                       address = addr,
                       network = (if testnet then ''testnet'' else ''mainnet'')\<rparr>)))"

section \<open>Base 58 as the specification words it\<close>

text \<open>
  The data read as a big-endian unsigned integer, divided by 58 until nothing is left,
  the remainders taken as indices into the alphabet with the most significant first,
  and one \<open>1\<close> in front for every zero byte the data starts with.
\<close>

definition be_value :: "buffer \<Rightarrow> nat" where
  "be_value data = foldl (\<lambda>acc b. 256 * acc + unat b) 0 data"

function radix58 :: "nat \<Rightarrow> nat list" where
  "radix58 n = (if n = 0 then [] else radix58 (n div 58) @ [n mod 58])"
  by pat_completeness auto
termination
  by (relation "measure id") auto

declare radix58.simps [simp del]

definition base58_spec :: "buffer \<Rightarrow> string" where
  "base58_spec data =
     replicate (length (takeWhile (\<lambda>b. b = 0) data)) (CHR ''1'')
       @ map (\<lambda>d. alphabet ! d) (radix58 (be_value data))"

section \<open>An instance of the two modules\<close>

text \<open>
  Concrete stand-ins for the required modules, to run the model on concrete keys.
  \<open>privateKeyVerify\<close> is the check of the curve: 32 bytes whose big-endian value
  is neither zero nor at or above the order of the group. The digests and the public
  key only have the right lengths: they are not the real functions.
\<close>

definition secp256k1_order :: nat where
  "secp256k1_order = 0xFFFFFFFFFFFFFFFFFFFFFFFFFFFFFFFEBAAEDCE6AF48A03BBFD25E8CD0364141"

definition sample_secp256k1 :: secp256k1 where
  "sample_secp256k1 =
     \<lparr>privateKeyVerify =
        (\<lambda>k. length k = 32 \<and> 0 < be_value k \<and> be_value k < secp256k1_order),
      publicKeyCreate = (\<lambda>k. 2 # take 32 (k @ replicate 32 0))\<rparr>"

definition sample_crypto :: crypto where
  "sample_crypto =
     \<lparr>sha256 = (\<lambda>d. take 32 (rev d @ replicate 32 0)),
      ripemd160 = (\<lambda>d. take 20 (d @ replicate 20 0))\<rparr>"

text \<open>
  An entropy source for the runs: 32 zero bytes, which are no key, then the 32 bytes of
  the key \<open>0xee\<close>, then zeros for ever.
\<close>

definition sample_entropy :: "byte stream" where
  "sample_entropy = (replicate 32 0 @ replicate 31 0 @ [0xee]) @- sconst 0"

section \<open>The two modules as their standards define them\<close>

text \<open>
  SHA-256 (FIPS 180-4), RIPEMD-160 and the curve secp256k1 (SEC 2), written out to run
  the model on a real key. Both digests pad the message with the byte \<open>0x80\<close>, zero
  bytes and the length in bits on 8 bytes, and work on blocks of 64 bytes; SHA-256
  reads and writes its words and the length with the most significant byte first,
  RIPEMD-160 with the least significant byte first.
\<close>

type_synonym u32 = "32 word"

definition be_bytes :: "u32 \<Rightarrow> buffer" where
  "be_bytes w = [ucast (drop_bit 24 w), ucast (drop_bit 16 w), ucast (drop_bit 8 w), ucast w]"

definition le_bytes :: "u32 \<Rightarrow> buffer" where
  "le_bytes w = rev (be_bytes w)"

fun be_word :: "buffer \<Rightarrow> u32" where
  "be_word [b3, b2, b1, b0] =
     push_bit 24 (ucast b3) OR push_bit 16 (ucast b2) OR push_bit 8 (ucast b1) OR ucast b0"
| "be_word _ = 0"

definition le_word :: "buffer \<Rightarrow> u32" where
  "le_word bs = be_word (rev bs)"

fun chunks :: "nat \<Rightarrow> 'a list \<Rightarrow> 'a list list" where
  "chunks n [] = []"
| "chunks n xs = (if n = 0 then [] else take n xs # chunks n (drop n xs))"

fun length_bytes :: "nat \<Rightarrow> nat \<Rightarrow> buffer" where
  "length_bytes 0 n = []"
| "length_bytes (Suc k) n = of_nat (n mod 256) # length_bytes k (n div 256)"

definition md_pad :: "buffer \<Rightarrow> buffer" where
  "md_pad m = m @ [0x80] @ replicate ((119 - length m mod 64) mod 64) 0"

definition rotr :: "nat \<Rightarrow> u32 \<Rightarrow> u32" where
  "rotr n x = drop_bit n x OR push_bit (32 - n) x"

definition rotl :: "nat \<Rightarrow> u32 \<Rightarrow> u32" where
  "rotl n x = push_bit n x OR drop_bit (32 - n) x"

definition sha256_K :: "u32 list" where
  "sha256_K =
    [1116352408, 1899447441, 3049323471, 3921009573, 961987163, 1508970993,
     2453635748, 2870763221, 3624381080, 310598401, 607225278, 1426881987,
     1925078388, 2162078206, 2614888103, 3248222580, 3835390401, 4022224774,
     264347078, 604807628, 770255983, 1249150122, 1555081692, 1996064986,
     2554220882, 2821834349, 2952996808, 3210313671, 3336571891, 3584528711,
     113926993, 338241895, 666307205, 773529912, 1294757372, 1396182291,
     1695183700, 1986661051, 2177026350, 2456956037, 2730485921, 2820302411,
     3259730800, 3345764771, 3516065817, 3600352804, 4094571909, 275423344,
     430227734, 506948616, 659060556, 883997877, 958139571, 1322822218,
     1537002063, 1747873779, 1955562222, 2024104815, 2227730452, 2361852424,
     2428436474, 2756734187, 3204031479, 3329325298]"

definition sha256_H0 :: "u32 list" where
  "sha256_H0 = [1779033703, 3144134277, 1013904242, 2773480762,
     1359893119, 2600822924, 528734635, 1541459225]"

fun sha256_schedule :: "nat \<Rightarrow> u32 list \<Rightarrow> u32 list" where
  "sha256_schedule 0 w = w"
| "sha256_schedule (Suc k) w =
     (let n = length w;
          x = w ! (n - 15);
          y = w ! (n - 2);
          s0 = rotr 7 x XOR rotr 18 x XOR drop_bit 3 x;
          s1 = rotr 17 y XOR rotr 19 y XOR drop_bit 10 y
      in sha256_schedule k (w @ [w ! (n - 16) + s0 + w ! (n - 7) + s1]))"

fun sha256_round :: "u32 list \<Rightarrow> u32 \<times> u32 \<Rightarrow> u32 list" where
  "sha256_round [a, b, c, d, e, f, g, h] (k, w) =
     (let S1 = rotr 6 e XOR rotr 11 e XOR rotr 25 e;
          ch = (e AND f) XOR (NOT e AND g);
          t1 = h + S1 + ch + k + w;
          S0 = rotr 2 a XOR rotr 13 a XOR rotr 22 a;
          maj = (a AND b) XOR (a AND c) XOR (b AND c);
          t2 = S0 + maj
      in [t1 + t2, a, b, c, d + t1, e, f, g])"
| "sha256_round s _ = s"

definition sha256_block :: "u32 list \<Rightarrow> buffer \<Rightarrow> u32 list" where
  "sha256_block h block =
     (let w = sha256_schedule 48 (map be_word (chunks 4 block))
      in map2 (+) h (foldl sha256_round h (zip sha256_K w)))"

definition SHA256 :: "buffer \<Rightarrow> buffer" where
  "SHA256 m =
     concat (map be_bytes
       (foldl sha256_block sha256_H0
          (chunks 64 (md_pad m @ rev (length_bytes 8 (8 * length m))))))"

text \<open>
  RIPEMD-160. Each of the two lines has five groups of sixteen steps; a group has its
  boolean function (by number), its added constant, and for each step the index of the
  message word and the amount of the left rotation.
\<close>

definition rmd_f :: "nat \<Rightarrow> u32 \<Rightarrow> u32 \<Rightarrow> u32 \<Rightarrow> u32" where
  "rmd_f g x y z =
     (if g = 0 then x XOR y XOR z
      else if g = 1 then (x AND y) OR (NOT x AND z)
      else if g = 2 then (x OR NOT y) XOR z
      else if g = 3 then (x AND z) OR (y AND NOT z)
      else x XOR (y OR NOT z))"

definition rmd_left :: "(nat \<times> u32 \<times> (nat \<times> nat) list) list" where
  "rmd_left =
    [
     (0, 0,
       [(0, 11), (1, 14), (2, 15), (3, 12), (4, 5), (5, 8), (6, 7), (7, 9),
        (8, 11), (9, 13), (10, 14), (11, 15), (12, 6), (13, 7), (14, 9), (15, 8)]),
     (1, 1518500249,
       [(7, 7), (4, 6), (13, 8), (1, 13), (10, 11), (6, 9), (15, 7), (3, 15),
        (12, 7), (0, 12), (9, 15), (5, 9), (2, 11), (14, 7), (11, 13), (8, 12)]),
     (2, 1859775393,
       [(3, 11), (10, 13), (14, 6), (4, 7), (9, 14), (15, 9), (8, 13), (1, 15),
        (2, 14), (7, 8), (0, 13), (6, 6), (13, 5), (11, 12), (5, 7), (12, 5)]),
     (3, 2400959708,
       [(1, 11), (9, 12), (11, 14), (10, 15), (0, 14), (8, 15), (12, 9), (4, 8),
        (13, 9), (3, 14), (7, 5), (15, 6), (14, 8), (5, 6), (6, 5), (2, 12)]),
     (4, 2840853838,
       [(4, 9), (0, 15), (5, 5), (9, 11), (7, 6), (12, 8), (2, 13), (10, 12),
        (14, 5), (1, 12), (3, 13), (8, 14), (11, 11), (6, 8), (15, 5), (13, 6)])]"

definition rmd_right :: "(nat \<times> u32 \<times> (nat \<times> nat) list) list" where
  "rmd_right =
    [
     (4, 1352829926,
       [(5, 8), (14, 9), (7, 9), (0, 11), (9, 13), (2, 15), (11, 15), (4, 5),
        (13, 7), (6, 7), (15, 8), (8, 11), (1, 14), (10, 14), (3, 12), (12, 6)]),
     (3, 1548603684,
       [(6, 9), (11, 13), (3, 15), (7, 7), (0, 12), (13, 8), (5, 9), (10, 11),
        (14, 7), (15, 7), (8, 12), (12, 7), (4, 6), (9, 15), (1, 13), (2, 11)]),
     (2, 1836072691,
       [(15, 9), (5, 7), (1, 15), (3, 11), (7, 8), (14, 6), (6, 6), (9, 14),
        (11, 12), (8, 13), (12, 5), (2, 14), (10, 13), (0, 13), (4, 7), (13, 5)]),
     (1, 2053994217,
       [(8, 15), (6, 5), (4, 8), (1, 11), (3, 14), (11, 14), (15, 6), (0, 14),
        (5, 6), (12, 9), (2, 12), (13, 9), (9, 12), (7, 5), (10, 15), (14, 8)]),
     (0, 0,
       [(12, 8), (15, 5), (10, 12), (4, 9), (1, 12), (5, 5), (8, 14), (7, 6),
        (6, 8), (2, 13), (13, 6), (14, 5), (0, 15), (3, 13), (9, 11), (11, 11)])]"

fun rmd_step :: "nat \<Rightarrow> u32 \<Rightarrow> u32 list \<Rightarrow> u32 list \<Rightarrow> nat \<times> nat \<Rightarrow> u32 list" where
  "rmd_step g k X [a, b, c, d, e] (r, s) =
     [e, rotl s (a + rmd_f g b c d + X ! r + k) + e, b, rotl 10 c, d]"
| "rmd_step g k X st _ = st"

fun rmd_group :: "u32 list \<Rightarrow> u32 list \<Rightarrow> nat \<times> u32 \<times> (nat \<times> nat) list \<Rightarrow> u32 list" where
  "rmd_group X st (g, k, steps) = foldl (rmd_step g k X) st steps"

definition rmd_H0 :: "u32 list" where
  "rmd_H0 = [1732584193, 4023233417, 2562383102, 271733878, 3285377520]"

definition rmd_block :: "u32 list \<Rightarrow> buffer \<Rightarrow> u32 list" where
  "rmd_block h block =
     (let X = map le_word (chunks 4 block);
          l = foldl (rmd_group X) h rmd_left;
          r = foldl (rmd_group X) h rmd_right
      in [h ! 1 + l ! 2 + r ! 3, h ! 2 + l ! 3 + r ! 4, h ! 3 + l ! 4 + r ! 0,
          h ! 4 + l ! 0 + r ! 1, h ! 0 + l ! 1 + r ! 2])"

definition RIPEMD160 :: "buffer \<Rightarrow> buffer" where
  "RIPEMD160 m =
     concat (map le_bytes
       (foldl rmd_block rmd_H0 (chunks 64 (md_pad m @ length_bytes 8 (8 * length m)))))"

text \<open>
  The curve secp256k1: \<open>y\<^sup>2 = x\<^sup>3 + 7\<close> over the integers modulo \<open>p\<close>, with
  the generator \<open>G\<close>. A point is \<open>None\<close> (the point at infinity) or \<open>Some (x, y)\<close>.
\<close>

definition secp256k1_p :: int where
  "secp256k1_p = 2 ^ 256 - 2 ^ 32 - 977"

definition secp256k1_G :: "(int \<times> int) option" where
  "secp256k1_G =
     Some (0x79BE667EF9DCBBAC55A06295CE870B07029BFCDB2DCE28D959F2815B16F81798,
           0x483ADA7726A3C4655DA4FBFC0E1108A8FD17B448A68554199C47D08FFB10D4B8)"

function euclid :: "int \<Rightarrow> int \<Rightarrow> int \<Rightarrow> int \<Rightarrow> int" where
  "euclid r0 r1 t0 t1 =
     (if r1 \<le> 0 then t0 else euclid r1 (r0 mod r1) t1 (t0 - (r0 div r1) * t1))"
  by pat_completeness auto
termination
  by (relation "measure (\<lambda>(r0, r1, t0, t1). nat r1)") auto

declare euclid.simps [simp del]

definition inverse_mod_p :: "int \<Rightarrow> int" where
  "inverse_mod_p a = euclid secp256k1_p (a mod secp256k1_p) 0 1 mod secp256k1_p"

definition ec_add :: "(int \<times> int) option \<Rightarrow> (int \<times> int) option \<Rightarrow> (int \<times> int) option" where
  "ec_add P Q =
     (case (P, Q) of
        (None, _) \<Rightarrow> Q
      | (_, None) \<Rightarrow> P
      | (Some (x1, y1), Some (x2, y2)) \<Rightarrow>
          if x1 = x2 \<and> (y1 + y2) mod secp256k1_p = 0 then None
          else
            (let l = (if x1 = x2 then 3 * x1 * x1 * inverse_mod_p (2 * y1)
                      else (y2 - y1) * inverse_mod_p (x2 - x1)) mod secp256k1_p;
                 x3 = (l * l - x1 - x2) mod secp256k1_p
             in Some (x3, (l * (x1 - x3) - y1) mod secp256k1_p)))"

function ec_mul :: "int \<Rightarrow> (int \<times> int) option \<Rightarrow> (int \<times> int) option" where
  "ec_mul k P =
     (if k \<le> 0 then None
      else (let Q = ec_mul (k div 2) P; D = ec_add Q Q
            in if odd k then ec_add D P else D))"
  by pat_completeness auto
termination
  by (relation "measure (\<lambda>(k, P). nat k)") auto

declare ec_mul.simps [simp del]

fun be_int_bytes :: "nat \<Rightarrow> int \<Rightarrow> buffer" where
  "be_int_bytes 0 x = []"
| "be_int_bytes (Suc n) x = be_int_bytes n (x div 256) @ [word_of_int (x mod 256)]"

definition compressed :: "(int \<times> int) option \<Rightarrow> buffer" where
  "compressed P =
     (case P of
        None \<Rightarrow> []
      | Some (x, y) \<Rightarrow> (if even y then 2 else 3) # be_int_bytes 32 x)"

text \<open>
  The compressed public key of a private key: the parity of \<open>y\<close> as \<open>0x02\<close> or
  \<open>0x03\<close>, then \<open>x\<close> on 32 bytes. The point at infinity has no encoding (the
  module throws); it is not reached from a key that verifies, and the model gives the
  empty buffer for it.
\<close>

definition secp256k1_publicKeyCreate :: "buffer \<Rightarrow> buffer" where
  "secp256k1_publicKeyCreate k = compressed (ec_mul (int (be_value k)) secp256k1_G)"

definition curve_order_check :: "secp256k1 \<Rightarrow> bool" where
  "curve_order_check s \<longleftrightarrow>
     (\<forall>k. length k = 32 \<longrightarrow>
        (privateKeyVerify s k \<longleftrightarrow> 0 < be_value k \<and> be_value k < secp256k1_order))"

definition node_crypto :: crypto where
  "node_crypto = \<lparr>sha256 = SHA256, ripemd160 = RIPEMD160\<rparr>"

definition node_secp256k1 :: secp256k1 where
  "node_secp256k1 =
     \<lparr>privateKeyVerify =
        (\<lambda>k. length k = 32 \<and> 0 < be_value k \<and> be_value k < secp256k1_order),
      publicKeyCreate = secp256k1_publicKeyCreate\<rparr>"

text \<open>The private key 12 and its compressed public key.\<close>

definition example_privateKey :: buffer where
  "example_privateKey = replicate 31 0 @ [12]"

definition example_publicKey :: buffer where
  "example_publicKey =
     [0x03, 0xd0, 0x11, 0x15, 0xd5, 0x48, 0xe7, 0x56, 0x1b, 0x15, 0xc3,
      0x8f, 0x00, 0x4d, 0x73, 0x46, 0x33, 0x68, 0x7c, 0xf4, 0x41, 0x96,
      0x20, 0x09, 0x5b, 0xc5, 0xb0, 0xf4, 0x70, 0x70, 0xaf, 0xe8, 0x5a]"

section \<open>Hexadecimal text: reading back what was written\<close>

lemma hexValue_hexDigit: "n < 16 \<Longrightarrow> hexValue (hexDigit n) = Some n"
proof -
  assume "n < 16"
  then have "n \<in> set [0..<16]" by simp
  then have "n \<in> {0,1,2,3,4,5,6,7,8,9,10,11,12,13,14,15}"
    by (simp add: upt_rec numeral_eq_Suc)
  then show ?thesis
    by (auto simp: hexValue_def hexDigit_def)
qed

lemma Buffer_from_hex_toString_hex: "Buffer_from_hex (toString_hex data) = data"
proof (induction data)
  case Nil
  show ?case by (simp add: toString_hex_def)
next
  case (Cons b data)
  have hi: "hexValue (hexDigit (unat b div 16)) = Some (unat b div 16)"
    by (rule hexValue_hexDigit)
      (use unsigned_less [of b, where ?'a = nat] in \<open>simp add: less_mult_imp_div_less\<close>)
  have lo: "hexValue (hexDigit (unat b mod 16)) = Some (unat b mod 16)"
    by (rule hexValue_hexDigit) simp
  from Cons show ?case
    by (simp add: toString_hex_def hi lo)
qed

lemma toString_hex_Cons:
  "toString_hex (b # data) =
     hexDigit (unat b div 16) # hexDigit (unat b mod 16) # toString_hex data"
  by (simp add: toString_hex_def)

lemma toString_hex_Nil_iff: "toString_hex data = [] \<longleftrightarrow> data = []"
  by (cases data) (simp_all add: toString_hex_def)

lemma nibbles_int:
  "16 * (16 * acc + int (x div 16)) + int (x mod 16) = 256 * acc + int x"
  by presburger

lemma hexLiteral_toString_hex:
  "0 \<le> acc \<Longrightarrow> hexLiteral acc (toString_hex data) =
     Some (int (foldl (\<lambda>a b. 256 * a + unat b) (nat acc) data))"
proof (induction data arbitrary: acc)
  case Nil
  then show ?case by (simp add: toString_hex_def)
next
  case (Cons b data)
  have hi: "hexValue (hexDigit (unat b div 16)) = Some (unat b div 16)"
    by (rule hexValue_hexDigit)
      (use unsigned_less [of b, where ?'a = nat] in \<open>simp add: less_mult_imp_div_less\<close>)
  have lo: "hexValue (hexDigit (unat b mod 16)) = Some (unat b mod 16)"
    by (rule hexValue_hexDigit) simp
  have e: "16 * (16 * acc + int (unat b div 16)) + int (unat b mod 16)
      = 256 * acc + int (unat b)"
    by (rule nibbles_int)
  have nn: "0 \<le> 256 * acc + int (unat b)"
    using Cons.prems by simp
  have eq: "nat (256 * acc + int (unat b)) = 256 * nat acc + unat b"
    using Cons.prems by (simp add: nat_add_distrib nat_mult_distrib)
  have "hexLiteral acc (toString_hex (b # data))
      = hexLiteral (256 * acc + int (unat b)) (toString_hex data)"
    by (simp only: toString_hex_Cons hexLiteral.simps hi lo option.case e)
  then show ?case
    by (simp only: Cons.IH [OF nn] eq foldl_Cons)
qed

lemma BigInt_0x_toString_hex:
  "BigInt_0x (toString_hex data) =
     (if data = [] then Inl (SyntaxError ''Cannot convert 0x to a BigInt'')
      else Inr (int (be_value data)))"
  using hexLiteral_toString_hex [of 0 data]
  by (simp add: BigInt_0x_def toString_hex_Nil_iff be_value_def)

section \<open>The loops of \<open>base58Encode\<close> compute the positional encoding\<close>

lemma base58_while_radix58:
  "base58_while (int n) acc = map (\<lambda>d. alphabet ! d) (radix58 n) @ acc"
proof (induction n arbitrary: acc rule: radix58.induct)
  case (1 n)
  show ?case
  proof (cases "n = 0")
    case True
    then show ?thesis by (simp add: base58_while.simps radix58.simps)
  next
    case False
    have d: "int n div 58 = int (n div 58)" and m: "nat (int n mod 58) = n mod 58"
      by (simp_all add: zdiv_int nat_mod_distrib)
    from False have "base58_while (int n) acc =
        base58_while (int (n div 58)) (alphabet ! (n mod 58) # acc)"
      by (subst base58_while.simps) (simp add: d m)
    also have "\<dots> = map (\<lambda>d. alphabet ! d) (radix58 (n div 58)) @ (alphabet ! (n mod 58) # acc)"
      using False by (rule "1.IH")
    also have "\<dots> = map (\<lambda>d. alphabet ! d) (radix58 n) @ acc"
      using False by (subst (2) radix58.simps) simp
    finally show ?thesis .
  qed
qed

lemma base58_for_replicate:
  "base58_for data acc = replicate (length (takeWhile (\<lambda>b. b = 0) data)) (CHR ''1'') @ acc"
  by (induction data arbitrary: acc) (simp_all add: replicate_append_same)

lemma base58Encode_spec:
  "base58Encode data =
     (if data = [] then Inl (SyntaxError ''Cannot convert 0x to a BigInt'')
      else Inr (base58_spec data))"
  by (simp add: base58Encode_def BigInt_0x_toString_hex base58_while_radix58
      base58_for_replicate base58_spec_def)

lemma be_value_zeros: "be_value (replicate n 0) = 0"
proof -
  have "foldl (\<lambda>acc b. 256 * acc + unat b) 0 (replicate n (0::byte)) = 0"
    by (induction n) simp_all
  then show ?thesis by (simp add: be_value_def)
qed

lemma base58_spec_zeros: "base58_spec (replicate n 0) = replicate n (CHR ''1'')"
  by (simp add: base58_spec_def be_value_zeros radix58.simps)

text \<open>
  Claim C2: \<open>base58Encode\<close> of \<open>N\<close> zero bytes is the string of \<open>N\<close> characters
  \<open>1\<close>, the empty string for the empty buffer. The code does so for every
  \<open>N \<ge> 1\<close>. On the empty buffer \<open>data.toString('hex')\<close> is the empty string,
  \<open>BigInt('0x')\<close> throws, and the call fails with a \<open>SyntaxError\<close> where the claim
  has it return the empty string.
\<close>

theorem base58Encode_all_zero:
  "base58Encode [] = Inl (SyntaxError ''Cannot convert 0x to a BigInt'')
   \<and> (\<forall>n. base58Encode (replicate (Suc n) 0) = Inr (replicate (Suc n) (CHR ''1'')))"
proof -
  have "base58Encode (replicate (Suc n) 0) = Inr (replicate (Suc n) (CHR ''1''))" for n
    using base58_spec_zeros [of "Suc n"] by (simp add: base58Encode_spec)
  then show ?thesis by (simp add: base58Encode_spec)
qed

section \<open>The address check\<close>

text \<open>
  Claim C4: \<open>validateAddress s\<close> is true exactly when \<open>s\<close> has between 26 and 35
  characters and its first character is \<open>b\<close>, \<open>m\<close> or \<open>1\<close>; a string of 25 or of
  36 characters is rejected, one of 30 characters that starts with \<open>b\<close> is accepted.
\<close>

theorem validateAddress_iff:
  "(validateAddress s \<longleftrightarrow>
      26 \<le> length s \<and> length s \<le> 35 \<and> take 1 s \<in> {''b'', ''m'', ''1''})
   \<and> (length s = 25 \<or> length s = 36 \<longrightarrow> \<not> validateAddress s)
   \<and> (length s = 30 \<and> take 1 s = ''b'' \<longrightarrow> validateAddress s)"
  by (cases s) (auto simp: validateAddress_def)

theorem validateAddress_iff_witness:
  "length ''bDNRqrDgjASVEBC9UuAyg8dWThLA1W'' = 30
   \<and> take 1 ''bDNRqrDgjASVEBC9UuAyg8dWThLA1W'' = ''b''
   \<and> validateAddress ''bDNRqrDgjASVEBC9UuAyg8dWThLA1W''
   \<and> length ''bDNRqrDgjASVEBC9UuAyg8dWT'' = 25
   \<and> \<not> validateAddress ''bDNRqrDgjASVEBC9UuAyg8dWT''
   \<and> length ''bDNRqrDgjASVEBC9UuAyg8dWThLA1WDNRqrD'' = 36
   \<and> \<not> validateAddress ''bDNRqrDgjASVEBC9UuAyg8dWThLA1WDNRqrD''
   \<and> \<not> validateAddress ''nDNRqrDgjASVEBC9UuAyg8dWThLA1W''"
  using validateAddress_iff [of "''bDNRqrDgjASVEBC9UuAyg8dWThLA1W''"]
    validateAddress_iff [of "''bDNRqrDgjASVEBC9UuAyg8dWT''"]
    validateAddress_iff [of "''bDNRqrDgjASVEBC9UuAyg8dWThLA1WDNRqrD''"]
    validateAddress_iff [of "''nDNRqrDgjASVEBC9UuAyg8dWThLA1W''"]
  by simp

section \<open>The first character of an encoding\<close>

lemma foldl_be:
  "foldl (\<lambda>acc b. 256 * acc + unat b) a (data :: buffer)
    = a * 256 ^ length data + foldl (\<lambda>acc b. 256 * acc + unat b) 0 data"
proof -
  define f where "f = (\<lambda>acc (b :: byte). 256 * acc + unat b)"
  have "foldl f a data = a * 256 ^ length data + foldl f 0 data"
  proof (induction data arbitrary: a)
    case Nil
    show ?case by simp
  next
    case (Cons b data)
    have "foldl f a (b # data) = foldl f (f a b) data"
      by simp
    also have "\<dots> = f a b * 256 ^ length data + foldl f 0 data"
      by (rule Cons.IH)
    also have "f a b = a * 256 + f 0 b"
      by (simp add: f_def)
    finally have "foldl f a (b # data)
        = a * 256 ^ length (b # data) + (f 0 b * 256 ^ length data + foldl f 0 data)"
      by (simp add: algebra_simps)
    also have "f 0 b * 256 ^ length data + foldl f 0 data = foldl f 0 (b # data)"
      using Cons.IH [of "f 0 b"] by simp
    finally show ?case .
  qed
  then show ?thesis by (simp add: f_def)
qed

lemma be_value_Cons: "be_value (b # data) = unat b * 256 ^ length data + be_value data"
  using foldl_be [of "unat b" data] by (simp add: be_value_def)

lemma be_value_less: "be_value data < 256 ^ length data"
proof (induction data)
  case Nil
  show ?case by (simp add: be_value_def)
next
  case (Cons b data)
  define P :: nat where "P = 256 ^ length data"
  have "unat b \<le> 255"
    using unsigned_less [of b, where ?'a = nat] by simp
  then have "unat b * P \<le> 255 * P"
    by (rule mult_le_mono1)
  moreover have "be_value data < P"
    using Cons.IH by (simp add: P_def)
  ultimately have "unat b * P + be_value data < 256 * P"
    by linarith
  then show ?case
    by (simp add: be_value_Cons P_def)
qed

lemma radix58_leading:
  "0 < d \<Longrightarrow> d < 58 \<Longrightarrow> d * 58 ^ k \<le> n \<Longrightarrow> n < (d + 1) * 58 ^ k
    \<Longrightarrow> \<exists>rest. radix58 n = d # rest"
proof (induction k arbitrary: n)
  case 0
  then have "n = d" by simp
  with 0 show ?case
    by (simp add: radix58.simps [of d] radix58.simps [of 0])
next
  case (Suc k)
  have pos: "n \<noteq> 0"
    using Suc.prems by (cases "n = 0") simp_all
  have lo: "d * 58 ^ k \<le> n div 58"
    using Suc.prems(3) by (simp add: less_eq_div_iff_mult_less_eq algebra_simps)
  have hi: "n div 58 < (d + 1) * 58 ^ k"
    using Suc.prems(4) by (simp add: div_less_iff_less_mult algebra_simps)
  from Suc.IH [OF Suc.prems(1,2) lo hi] obtain rest where "radix58 (n div 58) = d # rest" ..
  with pos show ?case
    by (subst radix58.simps) simp
qed

lemma base58_spec_first:
  assumes "0 < d" "d < 58" "b \<noteq> 0"
    and "d * 58 ^ k \<le> be_value (b # data)" "be_value (b # data) < (d + 1) * 58 ^ k"
  shows "\<exists>rest. base58_spec (b # data) = alphabet ! d # rest"
proof -
  from radix58_leading [OF assms(1,2,4,5)]
  obtain rest where "radix58 (be_value (b # data)) = d # rest" ..
  with assms(3) show ?thesis
    by (simp add: base58_spec_def)
qed

lemma createAddress_spec:
  "createAddress this c pk testnet =
     Inr (base58_spec
       (word_of_int (if testnet then TESTNET_PREFIX this else MAINNET_PREFIX this)
          # hash160 c pk
          @ take 4 (doubleSha256 c
              (word_of_int (if testnet then TESTNET_PREFIX this else MAINNET_PREFIX this)
                 # hash160 c pk))))"
  by (simp add: createAddress_def base58Encode_spec Let_def)

lemma payload_length:
  "crypto_contract c \<Longrightarrow> length (hash160 c pk @ take 4 (doubleSha256 c d)) = 24"
  by (simp add: crypto_contract_def hash160_def doubleSha256_def)

lemma payload_bounds:
  "length tail = 24 \<Longrightarrow>
     unat v * 256 ^ 24 \<le> be_value (v # tail) \<and> be_value (v # tail) < (unat v + 1) * 256 ^ 24"
  using be_value_less [of tail] by (simp add: be_value_Cons)

lemma mainnet_first:
  assumes "length tail = 24"
  shows "\<exists>rest. base58_spec (0x55 # tail) = CHR ''b'' # rest"
proof -
  have b: "85 * 256 ^ 24 \<le> be_value (0x55 # tail)" "be_value (0x55 # tail) < 86 * 256 ^ 24"
    using payload_bounds [OF assms, of "0x55"] by simp_all
  have "(34::nat) * 58 ^ 33 \<le> 85 * 256 ^ 24" "(86::nat) * 256 ^ 24 \<le> (34 + 1) * 58 ^ 33"
    by simp_all
  with b have "34 * 58 ^ 33 \<le> be_value (0x55 # tail)"
    "be_value (0x55 # tail) < (34 + 1) * 58 ^ 33"
    by linarith+
  from base58_spec_first [OF _ _ _ this, of ] obtain rest
    where "base58_spec (0x55 # tail) = alphabet ! 34 # rest" by auto
  moreover have "alphabet ! 34 = CHR ''b''"
    by (simp add: alphabet_def)
  ultimately show ?thesis by simp
qed

lemma testnet_first:
  assumes "length tail = 24"
  shows "\<exists>rest. base58_spec (0x6f # tail) = CHR ''m'' # rest
              \<or> base58_spec (0x6f # tail) = CHR ''n'' # rest"
proof -
  let ?N = "be_value (0x6f # tail)"
  have b: "111 * 256 ^ 24 \<le> ?N" "?N < 112 * 256 ^ 24"
    using payload_bounds [OF assms, of "0x6f"] by simp_all
  have n: "(44::nat) * 58 ^ 33 \<le> 111 * 256 ^ 24" "(112::nat) * 256 ^ 24 \<le> (45 + 1) * 58 ^ 33"
    by simp_all
  have a: "alphabet ! 44 = CHR ''m''" "alphabet ! 45 = CHR ''n''"
    by (simp_all add: alphabet_def)
  show ?thesis
  proof (cases "?N < (44 + 1) * 58 ^ 33")
    case True
    from n b have "44 * 58 ^ 33 \<le> ?N" by linarith
    from base58_spec_first [OF _ _ _ this True] a show ?thesis by auto
  next
    case False
    then have lo: "45 * 58 ^ 33 \<le> ?N" by simp
    from n b have "?N < (45 + 1) * 58 ^ 33" by linarith
    from base58_spec_first [OF _ _ _ lo this] a show ?thesis by auto
  qed
qed

lemma testnet_first_n:
  assumes "length tail = 23" "0xd6 \<le> h"
  shows "\<exists>rest. base58_spec (0x6f # h # tail) = CHR ''n'' # rest"
proof -
  let ?N = "be_value (0x6f # h # tail)"
  have "?N < 112 * 256 ^ 24"
    using payload_bounds [of "h # tail" "0x6f"] assms by simp
  moreover have "(112::nat) * 256 ^ 24 \<le> (45 + 1) * 58 ^ 33"
    by simp
  ultimately have hi: "?N < (45 + 1) * 58 ^ 33" by linarith
  have "214 \<le> unat h"
    using assms(2) by (simp add: word_le_nat_alt)
  then have "214 * 256 ^ 23 \<le> unat h * 256 ^ 23"
    by (rule mult_le_mono1)
  then have "111 * 256 ^ 24 + 214 * 256 ^ 23 \<le> ?N"
    using assms(1) by (simp add: be_value_Cons)
  moreover have "(45::nat) * 58 ^ 33 \<le> 111 * 256 ^ 24 + 214 * 256 ^ 23"
    by simp
  ultimately have lo: "45 * 58 ^ 33 \<le> ?N" by linarith
  have "alphabet ! 45 = CHR ''n''"
    by (simp add: alphabet_def)
  with base58_spec_first [OF _ _ _ lo hi] show ?thesis by auto
qed

section \<open>The instance meets the contracts\<close>

lemma sample_crypto_contract: "crypto_contract sample_crypto"
  by (auto simp: crypto_contract_def sample_crypto_def)

lemma be_value_leading_zeros: "be_value (replicate n 0 @ data) = be_value data"
  by (induction n) (simp_all add: be_value_Cons)

lemma be_value_single: "be_value [b] = unat b"
  by (simp add: be_value_def)

lemma sample_privateKeyVerify:
  "privateKeyVerify sample_secp256k1 (replicate 31 0 @ [b]) \<longleftrightarrow> b \<noteq> 0"
proof -
  have "unat b < 256"
    using unsigned_less [of b, where ?'a = nat] by simp
  then have "unat b < secp256k1_order"
    by (simp add: secp256k1_order_def)
  then show ?thesis
    by (simp add: sample_secp256k1_def be_value_leading_zeros be_value_single unat_gt_0)
qed

lemma sample_publicKeyCreate:
  "publicKeyCreate sample_secp256k1 (replicate 31 0 @ [b]) = 2 # replicate 31 0 @ [b]"
  by (simp add: sample_secp256k1_def)

lemma sample_privateKeyVerify_zero:
  "\<not> privateKeyVerify sample_secp256k1 (replicate 32 0)"
  using be_value_leading_zeros [of 32 "[]"] by (simp add: sample_secp256k1_def be_value_def)

lemma sample_secp256k1_contract: "secp256k1_contract sample_secp256k1"
  by (simp add: secp256k1_contract_def sample_secp256k1_def)

section \<open>What \<open>createAddress\<close> returns\<close>

text \<open>
  Claim C1: for a public key \<open>pk\<close> and a network, \<open>createAddress\<close> returns the
  base-58 encoding of the version byte (\<open>0x55\<close> on mainnet, \<open>0x6f\<close> on testnet),
  followed by the RIPEMD-160 of the SHA-256 of \<open>pk\<close>, followed by the first 4 bytes
  of the double SHA-256 of these 21 bytes: 25 bytes when the digests have their
  lengths. No input makes it fail.
\<close>

theorem createAddress_payload:
  "(let version = (if testnet then 0x6f else 0x55);
        h = ripemd160 c (sha256 c pk);
        checksum = take 4 (sha256 c (sha256 c (version # h)))
    in createAddress new_LBRYAddressGenerator c pk testnet
         = Inr (base58_spec (version # h @ checksum))
       \<and> hash160 c pk = h
       \<and> (crypto_contract c \<longrightarrow>
            length h = 20 \<and> length checksum = 4 \<and> length (version # h @ checksum) = 25))"
  by (simp add: createAddress_spec new_LBRYAddressGenerator_def Let_def hash160_def
      doubleSha256_def crypto_contract_def)

theorem createAddress_payload_witness:
  "crypto_contract sample_crypto
   \<and> createAddress new_LBRYAddressGenerator sample_crypto (2 # replicate 31 0 @ [1]) False
       = Inr (base58_spec ([0x55, 1] @ replicate 19 0 @ [0, 0, 0, 0]))
   \<and> length ([0x55, 1 :: byte] @ replicate 19 0 @ [0, 0, 0, 0]) = 25"
proof -
  let ?pk = "2 # replicate 31 0 @ [1 :: byte]"
  have h: "ripemd160 sample_crypto (sha256 sample_crypto ?pk) = 1 # replicate 19 0"
    by code_simp
  have cs: "take 4 (sha256 sample_crypto (sha256 sample_crypto (0x55 # 1 # replicate 19 0)))
      = [0, 0, 0, 0]"
    by code_simp
  from createAddress_payload [of False sample_crypto ?pk] sample_crypto_contract
  show ?thesis
    by (simp add: Let_def h cs)
qed

text \<open>
  Claim C5: an address built for mainnet starts with \<open>b\<close>, one built for testnet
  with \<open>m\<close> or \<open>n\<close>, whatever the public key: the version byte in front of 24
  more bytes fixes the leading base-58 digit.
\<close>

theorem address_first_character:
  assumes "crypto_contract c"
  shows "(\<exists>rest. createAddress new_LBRYAddressGenerator c pk False = Inr (CHR ''b'' # rest))
       \<and> (\<exists>rest. createAddress new_LBRYAddressGenerator c pk True = Inr (CHR ''m'' # rest)
               \<or> createAddress new_LBRYAddressGenerator c pk True = Inr (CHR ''n'' # rest))"
  using mainnet_first [OF payload_length [OF assms]]
    testnet_first [OF payload_length [OF assms]]
  by (simp add: createAddress_spec new_LBRYAddressGenerator_def)

theorem address_first_character_witness:
  "crypto_contract sample_crypto
   \<and> (\<exists>rest. createAddress new_LBRYAddressGenerator sample_crypto
                (2 # replicate 31 0 @ [1]) False = Inr (CHR ''b'' # rest))
   \<and> (\<exists>rest. createAddress new_LBRYAddressGenerator sample_crypto
                (2 # replicate 31 0 @ [1]) True = Inr (CHR ''m'' # rest)
            \<or> createAddress new_LBRYAddressGenerator sample_crypto
                (2 # replicate 31 0 @ [1]) True = Inr (CHR ''n'' # rest))"
  using address_first_character [OF sample_crypto_contract, of "2 # replicate 31 0 @ [1]"]
    sample_crypto_contract
  by simp

text \<open>
  Whatever the digests, a testnet address starts with \<open>n\<close> when the first byte of
  the key's \<open>hash160\<close> is \<open>0xd6\<close> or more.
\<close>

lemma testnet_address_n:
  assumes c: "crypto_contract c" and h: "hash160 c pk = h # hs" and le: "0xd6 \<le> h"
  shows "\<exists>rest. createAddress new_LBRYAddressGenerator c pk True = Inr (CHR ''n'' # rest)"
proof -
  let ?cs = "take 4 (doubleSha256 c (0x6f # h # hs))"
  have "length (hash160 c pk @ ?cs) = 24"
    by (rule payload_length [OF c])
  then have "length (hs @ ?cs) = 23"
    by (simp add: h)
  from testnet_first_n [OF this le] show ?thesis
    by (simp add: createAddress_spec new_LBRYAddressGenerator_def h)
qed

section \<open>Drawing a private key\<close>

text \<open>
  A run of \<open>generatePrivateKey\<close> that returns gives a key that verifies, one of the
  32-byte draws from the source; it returns as soon as some draw verifies, and never
  when none does.
\<close>

lemma generatePrivateKey_Some_aux:
  assumes "generatePrivateKey secp rnd = Some y"
  shows "privateKeyVerify secp (fst y)
     \<and> (\<exists>n. fst y = stake 32 (sdrop (32 * n) rnd) \<and> snd y = sdrop (32 * Suc n) rnd)"
proof (rule generatePrivateKey.raw_induct [OF _ assms])
  fix gen :: "secp256k1 \<Rightarrow> byte stream \<Rightarrow> (buffer \<times> byte stream) option"
    and s :: secp256k1 and e :: "byte stream" and y :: "buffer \<times> byte stream"
  assume IH: "\<And>s e y. gen s e = Some y \<Longrightarrow>
      privateKeyVerify s (fst y)
      \<and> (\<exists>n. fst y = stake 32 (sdrop (32 * n) e) \<and> snd y = sdrop (32 * Suc n) e)"
    and step: "(case randomBytes 32 e of
        (k, e') \<Rightarrow>
          if \<not> privateKeyVerify s k then gen s e' else Some (k, e')) = Some y"
  show "privateKeyVerify s (fst y)
      \<and> (\<exists>n. fst y = stake 32 (sdrop (32 * n) e) \<and> snd y = sdrop (32 * Suc n) e)"
  proof (cases "privateKeyVerify s (stake 32 e)")
    case True
    with step have "y = (stake 32 e, sdrop 32 e)"
      by (simp add: randomBytes_def)
    with True show ?thesis
      by (auto intro: exI [of _ 0])
  next
    case False
    with step have "gen s (sdrop 32 e) = Some y"
      by (simp add: randomBytes_def)
    from IH [OF this] obtain n where v: "privateKeyVerify s (fst y)"
      and "fst y = stake 32 (sdrop (32 * n) (sdrop 32 e))"
      and "snd y = sdrop (32 * Suc n) (sdrop 32 e)"
      by blast
    then have "fst y = stake 32 (sdrop (32 * Suc n) e)"
      "snd y = sdrop (32 * Suc (Suc n)) e"
      by (simp_all add: add.commute)
    with v show ?thesis by blast
  qed
qed

lemma generatePrivateKey_Some:
  "generatePrivateKey secp rnd = Some (k, r) \<Longrightarrow>
     privateKeyVerify secp k
     \<and> (\<exists>n. k = stake 32 (sdrop (32 * n) rnd) \<and> r = sdrop (32 * Suc n) rnd)"
  by (drule generatePrivateKey_Some_aux) simp

lemma generatePrivateKey_length:
  "generatePrivateKey secp rnd = Some (k, r) \<Longrightarrow> length k = 32"
  by (drule generatePrivateKey_Some) auto

lemma generatePrivateKey_returns:
  "privateKeyVerify secp (stake 32 (sdrop (32 * n) rnd)) \<Longrightarrow>
     \<exists>k r. generatePrivateKey secp rnd = Some (k, r)"
proof (induction n arbitrary: rnd)
  case 0
  then show ?case
    by (subst generatePrivateKey.simps) (simp add: randomBytes_def)
next
  case (Suc n)
  have "stake 32 (sdrop (32 * n) (sdrop 32 rnd)) = stake 32 (sdrop (32 * Suc n) rnd)"
    by (simp add: add.commute)
  with Suc.prems have "privateKeyVerify secp (stake 32 (sdrop (32 * n) (sdrop 32 rnd)))"
    by simp
  from Suc.IH [OF this] obtain k r where "generatePrivateKey secp (sdrop 32 rnd) = Some (k, r)"
    by blast
  then show ?case
    by (subst generatePrivateKey.simps) (simp add: randomBytes_def)
qed

lemma generatePrivateKey_None:
  "(\<forall>n. \<not> privateKeyVerify secp (stake 32 (sdrop (32 * n) rnd))) \<Longrightarrow>
     generatePrivateKey secp rnd = None"
proof (rule ccontr)
  assume none: "\<forall>n. \<not> privateKeyVerify secp (stake 32 (sdrop (32 * n) rnd))"
    and "generatePrivateKey secp rnd \<noteq> None"
  then obtain k r where "generatePrivateKey secp rnd = Some (k, r)"
    by auto
  from generatePrivateKey_Some [OF this] none show False
    by blast
qed

lemma sample_entropy_draws:
  "stake 32 sample_entropy = replicate 32 0"
  "stake 32 (sdrop 32 sample_entropy) = replicate 31 0 @ [0xee]"
  "sdrop 32 (sdrop 32 sample_entropy) = sconst 0"
  by (simp_all add: sample_entropy_def stake_shift sdrop_shift)

lemma sample_generatePrivateKey:
  "generatePrivateKey sample_secp256k1 sample_entropy = Some (replicate 31 0 @ [0xee], sconst 0)"
proof -
  have "generatePrivateKey sample_secp256k1 (sdrop 32 sample_entropy)
      = Some (replicate 31 0 @ [0xee], sconst 0)"
    by (subst generatePrivateKey.simps)
      (simp add: randomBytes_def sample_entropy_draws sample_privateKeyVerify
        del: sdrop_add)
  then show ?thesis
    by (subst generatePrivateKey.simps)
      (simp add: randomBytes_def sample_entropy_draws sample_privateKeyVerify_zero)
qed

section \<open>Wallets from a drawn and from a given key\<close>

lemma createAddress_total: "\<exists>a. createAddress this c pk n = Inr a"
  by (simp add: createAddress_spec)

lemma generateWallet_Some:
  assumes "generateWallet this c secp n rnd = Some (x, r)"
  shows "\<exists>k a. generatePrivateKey secp rnd = Some (k, r)
      \<and> privateKeyVerify secp k \<and> length k = 32
      \<and> createAddress this c (publicKeyCreate secp k) n = Inr a
      \<and> x = Inr \<lparr>privateKey = toString_hex k,
                  publicKey = Uint8Array_toString (publicKeyCreate secp k),
                  address = a,
                  network = (if n then ''testnet'' else ''mainnet'')\<rparr>"
proof -
  from assms obtain k where g: "generatePrivateKey secp rnd = Some (k, r)"
    by (auto simp: generateWallet_def split: option.splits)
  from generatePrivateKey_Some [OF g] generatePrivateKey_length [OF g]
  have v: "privateKeyVerify secp k" and l: "length k = 32"
    by simp_all
  obtain a where a: "createAddress this c (publicKeyCreate secp k) n = Inr a"
    using createAddress_total by blast
  from assms g v a have "x = Inr \<lparr>privateKey = toString_hex k,
                  publicKey = Uint8Array_toString (publicKeyCreate secp k),
                  address = a,
                  network = (if n then ''testnet'' else ''mainnet'')\<rparr>"
    by (simp add: generateWallet_def getPublicKey_def)
  with g v l a show ?thesis by blast
qed

lemma generateWallet_returns:
  assumes "privateKeyVerify secp (stake 32 (sdrop (32 * i) rnd))"
  shows "\<exists>w r. generateWallet this c secp n rnd = Some (Inr w, r)"
proof -
  from generatePrivateKey_returns [OF assms] obtain k r
    where g: "generatePrivateKey secp rnd = Some (k, r)"
    by blast
  from generatePrivateKey_Some [OF g] have v: "privateKeyVerify secp k"
    by simp
  obtain a where a: "createAddress this c (publicKeyCreate secp k) n = Inr a"
    using createAddress_total by blast
  from g v a show ?thesis
    by (simp add: generateWallet_def getPublicKey_def)
qed

lemma fromPrivateKey_Buf:
  assumes "length k = 32" "privateKeyVerify secp k"
    and "createAddress this c (publicKeyCreate secp k) n = Inr a"
  shows "fromPrivateKey this c secp (Buf k) n
      = Inr \<lparr>privateKey = toString_hex k,
               publicKey = Uint8Array_toString (publicKeyCreate secp k),
               address = a,
               network = (if n then ''testnet'' else ''mainnet'')\<rparr>"
  using assms by (simp add: fromPrivateKey_def getPublicKey_def)

lemma fromPrivateKey_Str_hex:
  "fromPrivateKey this c secp (Str (toString_hex k)) n = fromPrivateKey this c secp (Buf k) n"
  by (simp add: fromPrivateKey_def Buffer_from_hex_toString_hex)

lemma fromPrivateKey_Inr:
  assumes "fromPrivateKey this c secp inp n = Inr w"
  shows "\<exists>k. k = (case inp of Str s \<Rightarrow> Buffer_from_hex s | Buf b \<Rightarrow> b)
      \<and> length k = 32 \<and> privateKeyVerify secp k
      \<and> privateKey w = toString_hex k
      \<and> createAddress this c (publicKeyCreate secp k) n = Inr (address w)"
  using assms
  by (auto simp: fromPrivateKey_def getPublicKey_def Let_def split: if_splits sum.splits)

lemma toString_hex_inject: "toString_hex k = toString_hex k' \<longleftrightarrow> k = k'"
  by (metis Buffer_from_hex_toString_hex)

section \<open>Deriving the public key\<close>

lemma sample_curve_order_check: "curve_order_check sample_secp256k1"
  by (simp add: curve_order_check_def sample_secp256k1_def)

text \<open>
  Claim C9: on a key of 32 bytes, \<open>getPublicKey\<close> fails, with the error
  \<open>Invalid private key\<close>, exactly when \<open>privateKeyVerify\<close> rejects the key, which
  for the check of the curve means that the key is zero or not below the order of the
  group; on a key that verifies it returns what \<open>publicKeyCreate\<close> computes from it,
  33 bytes by the contract of the module.
\<close>

theorem getPublicKey_result:
  "length sk = 32 \<longrightarrow>
     (getPublicKey secp sk = Inl (Error ''Invalid private key'') \<longleftrightarrow> \<not> privateKeyVerify secp sk)
     \<and> ((\<exists>e. getPublicKey secp sk = Inl e) \<longleftrightarrow> \<not> privateKeyVerify secp sk)
     \<and> (privateKeyVerify secp sk \<longrightarrow> getPublicKey secp sk = Inr (publicKeyCreate secp sk))
     \<and> (secp256k1_contract secp \<and> privateKeyVerify secp sk \<longrightarrow>
          length (publicKeyCreate secp sk) = 33)
     \<and> (curve_order_check secp \<longrightarrow>
          ((\<exists>e. getPublicKey secp sk = Inl e) \<longleftrightarrow>
             be_value sk = 0 \<or> secp256k1_order \<le> be_value sk))"
proof
  assume l: "length sk = 32"
  have 1: "(getPublicKey secp sk = Inl (Error ''Invalid private key'')) = (\<not> privateKeyVerify secp sk)"
    "(\<exists>e. getPublicKey secp sk = Inl e) = (\<not> privateKeyVerify secp sk)"
    "privateKeyVerify secp sk \<longrightarrow> getPublicKey secp sk = Inr (publicKeyCreate secp sk)"
    by (simp_all add: getPublicKey_def)
  have 2: "secp256k1_contract secp \<and> privateKeyVerify secp sk \<longrightarrow>
      length (publicKeyCreate secp sk) = 33"
    by (simp add: secp256k1_contract_def)
  have 3: "(\<exists>e. getPublicKey secp sk = Inl e) =
      (be_value sk = 0 \<or> secp256k1_order \<le> be_value sk)" if "curve_order_check secp"
  proof -
    from that l have "privateKeyVerify secp sk \<longleftrightarrow>
        0 < be_value sk \<and> be_value sk < secp256k1_order"
      by (simp add: curve_order_check_def)
    then show ?thesis
      by (auto simp: getPublicKey_def)
  qed
  from 1 2 3 show "(getPublicKey secp sk = Inl (Error ''Invalid private key'') \<longleftrightarrow>
        \<not> privateKeyVerify secp sk)
     \<and> ((\<exists>e. getPublicKey secp sk = Inl e) \<longleftrightarrow> \<not> privateKeyVerify secp sk)
     \<and> (privateKeyVerify secp sk \<longrightarrow> getPublicKey secp sk = Inr (publicKeyCreate secp sk))
     \<and> (secp256k1_contract secp \<and> privateKeyVerify secp sk \<longrightarrow>
          length (publicKeyCreate secp sk) = 33)
     \<and> (curve_order_check secp \<longrightarrow>
          ((\<exists>e. getPublicKey secp sk = Inl e) \<longleftrightarrow>
             be_value sk = 0 \<or> secp256k1_order \<le> be_value sk))"
    by blast
qed

theorem getPublicKey_result_witness:
  "secp256k1_contract sample_secp256k1
   \<and> curve_order_check sample_secp256k1
   \<and> length (replicate 32 0 :: buffer) = 32
   \<and> be_value (replicate 32 0) = 0
   \<and> \<not> privateKeyVerify sample_secp256k1 (replicate 32 0)
   \<and> getPublicKey sample_secp256k1 (replicate 32 0) = Inl (Error ''Invalid private key'')
   \<and> length (replicate 31 0 @ [0xee :: byte]) = 32
   \<and> privateKeyVerify sample_secp256k1 (replicate 31 0 @ [0xee])
   \<and> getPublicKey sample_secp256k1 (replicate 31 0 @ [0xee])
       = Inr (publicKeyCreate sample_secp256k1 (replicate 31 0 @ [0xee]))
   \<and> length (publicKeyCreate sample_secp256k1 (replicate 31 0 @ [0xee])) = 33"
proof -
  have l: "length (replicate 32 0 :: buffer) = 32" "length (replicate 31 0 @ [0xee :: byte]) = 32"
    by simp_all
  from getPublicKey_result [of "replicate 32 0" sample_secp256k1]
    getPublicKey_result [of "replicate 31 0 @ [0xee]" sample_secp256k1]
    sample_secp256k1_contract sample_curve_order_check sample_privateKeyVerify_zero
    sample_privateKeyVerify [of "0xee"] l be_value_zeros [of 32]
  show ?thesis
    by simp
qed

text \<open>
  Claim C10: \<open>hash160\<close> returns 20 bytes and \<open>doubleSha256\<close> 32, by the lengths
  of the two digests; \<open>generatePrivateKey\<close> returns 32 bytes whenever it returns, and
  it returns when some draw from the entropy source verifies; \<open>getPublicKey\<close> on a
  key that verifies returns 33 bytes.
\<close>

theorem output_lengths:
  "(crypto_contract c \<longrightarrow> length (hash160 c d) = 20 \<and> length (doubleSha256 c d) = 32)
   \<and> (\<forall>k r. generatePrivateKey secp rnd = Some (k, r) \<longrightarrow> length k = 32)
   \<and> ((\<exists>i. privateKeyVerify secp (stake 32 (sdrop (32 * i) rnd))) \<longrightarrow>
        (\<exists>k r. generatePrivateKey secp rnd = Some (k, r) \<and> length k = 32))
   \<and> (secp256k1_contract secp \<and> privateKeyVerify secp sk \<longrightarrow>
        (\<exists>pk. getPublicKey secp sk = Inr pk \<and> length pk = 33))"
proof -
  have "crypto_contract c \<longrightarrow> length (hash160 c d) = 20 \<and> length (doubleSha256 c d) = 32"
    by (simp add: crypto_contract_def hash160_def doubleSha256_def)
  moreover have "\<forall>k r. generatePrivateKey secp rnd = Some (k, r) \<longrightarrow> length k = 32"
    using generatePrivateKey_length by blast
  moreover have "(\<exists>i. privateKeyVerify secp (stake 32 (sdrop (32 * i) rnd))) \<longrightarrow>
        (\<exists>k r. generatePrivateKey secp rnd = Some (k, r) \<and> length k = 32)"
    using generatePrivateKey_returns generatePrivateKey_length by blast
  moreover have "secp256k1_contract secp \<and> privateKeyVerify secp sk \<longrightarrow>
        (\<exists>pk. getPublicKey secp sk = Inr pk \<and> length pk = 33)"
    by (simp add: getPublicKey_def secp256k1_contract_def)
  ultimately show ?thesis by blast
qed

theorem output_lengths_witness:
  "crypto_contract sample_crypto
   \<and> length (hash160 sample_crypto [1, 2, 3]) = 20
   \<and> length (doubleSha256 sample_crypto [1, 2, 3]) = 32
   \<and> privateKeyVerify sample_secp256k1 (stake 32 (sdrop (32 * 1) sample_entropy))
   \<and> (\<exists>k r. generatePrivateKey sample_secp256k1 sample_entropy = Some (k, r) \<and> length k = 32)
   \<and> secp256k1_contract sample_secp256k1
   \<and> privateKeyVerify sample_secp256k1 (replicate 31 0 @ [0xee])
   \<and> (\<exists>pk. getPublicKey sample_secp256k1 (replicate 31 0 @ [0xee]) = Inr pk \<and> length pk = 33)"
proof -
  have v: "privateKeyVerify sample_secp256k1 (replicate 31 0 @ [0xee])"
    by (simp add: sample_privateKeyVerify)
  then have d: "privateKeyVerify sample_secp256k1 (stake 32 (sdrop (32 * 1) sample_entropy))"
    by (simp add: sample_entropy_draws)
  from output_lengths [of sample_crypto "[1, 2, 3]" sample_secp256k1 sample_entropy
      "replicate 31 0 @ [0xee]"]
    sample_crypto_contract sample_secp256k1_contract v d
  show ?thesis by blast
qed

section \<open>The errors of \<open>fromPrivateKey\<close>\<close>

text \<open>
  Claim C3 has \<open>fromPrivateKey\<close> fail with one kind of error on a string that is not
  hexadecimal and with another on a key of the wrong length. The code has one error for
  both: \<open>Buffer.from\<close> does not fail on \<open>invalid_hex\<close>, it decodes no byte, and
  the length check that rejects \<open>1234\<close> rejects the empty buffer with the same
  message.
\<close>

theorem fromPrivateKey_same_error:
  "fromPrivateKey new_LBRYAddressGenerator sample_crypto sample_secp256k1
       (Str ''invalid_hex'') False = Inl (Error ''Private key must be 32 bytes'')
   \<and> fromPrivateKey new_LBRYAddressGenerator sample_crypto sample_secp256k1
       (Str ''1234'') False = Inl (Error ''Private key must be 32 bytes'')"
  by (simp add: fromPrivateKey_def hexValue_def)

text \<open>
  Claim C3, amended: \<open>fromPrivateKey\<close> fails with \<open>Private key must be 32 bytes\<close>
  exactly when the buffer given, or decoded from the string given, has not 32 bytes,
  and with \<open>Invalid private key\<close> exactly when it has 32 bytes that do not verify;
  it fails in no other way.
\<close>

theorem fromPrivateKey_errors:
  "fromPrivateKey this c secp inp n = Inl e \<longleftrightarrow>
     (let sk = (case inp of Str s \<Rightarrow> Buffer_from_hex s | Buf b \<Rightarrow> b) in
      (length sk \<noteq> 32 \<and> e = Error ''Private key must be 32 bytes'')
      \<or> (length sk = 32 \<and> \<not> privateKeyVerify secp sk \<and> e = Error ''Invalid private key''))"
proof -
  obtain a where "createAddress this c
      (publicKeyCreate secp (case inp of Str s \<Rightarrow> Buffer_from_hex s | Buf b \<Rightarrow> b)) n = Inr a"
    using createAddress_total by blast
  then show ?thesis
    by (auto simp: fromPrivateKey_def getPublicKey_def Let_def)
qed

theorem fromPrivateKey_errors_witness:
  "Buffer_from_hex ''invalid_hex'' = []
   \<and> Buffer_from_hex ''1234'' = [0x12, 0x34]
   \<and> fromPrivateKey new_LBRYAddressGenerator sample_crypto sample_secp256k1
       (Str ''invalid_hex'') True = Inl (Error ''Private key must be 32 bytes'')
   \<and> fromPrivateKey new_LBRYAddressGenerator sample_crypto sample_secp256k1
       (Str ''1234'') True = Inl (Error ''Private key must be 32 bytes'')
   \<and> fromPrivateKey new_LBRYAddressGenerator sample_crypto sample_secp256k1
       (Buf (replicate 32 0)) True = Inl (Error ''Invalid private key'')"
proof -
  have d: "Buffer_from_hex ''invalid_hex'' = []" "Buffer_from_hex ''1234'' = [0x12, 0x34]"
    by (simp_all add: hexValue_def)
  note e = fromPrivateKey_errors [of new_LBRYAddressGenerator sample_crypto sample_secp256k1]
  have "fromPrivateKey new_LBRYAddressGenerator sample_crypto sample_secp256k1
       (Str ''invalid_hex'') True = Inl (Error ''Private key must be 32 bytes'')"
    by (subst e) (simp add: d del: Buffer_from_hex.simps)
  moreover have "fromPrivateKey new_LBRYAddressGenerator sample_crypto sample_secp256k1
       (Str ''1234'') True = Inl (Error ''Private key must be 32 bytes'')"
    by (subst e) (simp add: d del: Buffer_from_hex.simps)
  moreover have "fromPrivateKey new_LBRYAddressGenerator sample_crypto sample_secp256k1
       (Buf (replicate 32 0)) True = Inl (Error ''Invalid private key'')"
    by (subst e) (simp add: sample_privateKeyVerify_zero)
  ultimately show ?thesis
    using d by (simp del: Buffer_from_hex.simps)
qed

section \<open>One key, one address\<close>

text \<open>
  Claim C7: the wallet built from the hexadecimal form of a key is the wallet built from
  its bytes; the wallet \<open>generateWallet\<close> returns is found again by
  \<open>fromPrivateKey\<close> on its \<open>privateKey\<close> field, address included; and on a
  32-byte key that verifies the call succeeds and keeps the key.
\<close>

theorem wallet_round_trip:
  "fromPrivateKey this c secp (Str (toString_hex k)) n = fromPrivateKey this c secp (Buf k) n
   \<and> (\<forall>w r. generateWallet this c secp n rnd = Some (Inr w, r) \<longrightarrow>
         fromPrivateKey this c secp (Str (privateKey w)) n = Inr w)
   \<and> (length k = 32 \<and> privateKeyVerify secp k \<longrightarrow>
        (\<exists>w. fromPrivateKey this c secp (Str (toString_hex k)) n = Inr w
           \<and> privateKey w = toString_hex k))"
proof -
  have "fromPrivateKey this c secp (Str (privateKey w)) n = Inr w"
    if "generateWallet this c secp n rnd = Some (Inr w, r)" for w r
  proof -
    from generateWallet_Some [OF that] obtain sk a
      where sk: "privateKeyVerify secp sk" "length sk = 32"
        and a: "createAddress this c (publicKeyCreate secp sk) n = Inr a"
        and w: "w = \<lparr>privateKey = toString_hex sk,
                  publicKey = Uint8Array_toString (publicKeyCreate secp sk),
                  address = a,
                  network = (if n then ''testnet'' else ''mainnet'')\<rparr>"
      by auto
    from w have "privateKey w = toString_hex sk"
      by simp
    then show ?thesis
      using fromPrivateKey_Buf [OF sk(2,1) a] w
      by (simp only: fromPrivateKey_Str_hex)
  qed
  moreover have "\<exists>w. fromPrivateKey this c secp (Str (toString_hex k)) n = Inr w
           \<and> privateKey w = toString_hex k"
    if "length k = 32" "privateKeyVerify secp k"
  proof -
    obtain a where "createAddress this c (publicKeyCreate secp k) n = Inr a"
      using createAddress_total by blast
    from fromPrivateKey_Buf [OF that this] show ?thesis
      by (simp add: fromPrivateKey_Str_hex)
  qed
  ultimately show ?thesis
    using fromPrivateKey_Str_hex by blast
qed

theorem wallet_round_trip_witness:
  "(\<exists>w r. generateWallet new_LBRYAddressGenerator sample_crypto sample_secp256k1 False
              sample_entropy = Some (Inr w, r)
         \<and> fromPrivateKey new_LBRYAddressGenerator sample_crypto sample_secp256k1
              (Str (privateKey w)) False = Inr w)
   \<and> length (replicate 31 0 @ [0xee :: byte]) = 32
   \<and> privateKeyVerify sample_secp256k1 (replicate 31 0 @ [0xee])
   \<and> (\<exists>w. fromPrivateKey new_LBRYAddressGenerator sample_crypto sample_secp256k1
              (Str (toString_hex (replicate 31 0 @ [0xee]))) False = Inr w
          \<and> privateKey w = toString_hex (replicate 31 0 @ [0xee]))"
proof -
  have v: "privateKeyVerify sample_secp256k1 (replicate 31 0 @ [0xee])"
    by (simp add: sample_privateKeyVerify)
  then have "privateKeyVerify sample_secp256k1 (stake 32 (sdrop (32 * 1) sample_entropy))"
    by (simp add: sample_entropy_draws)
  from generateWallet_returns [OF this] obtain w r
    where g: "generateWallet new_LBRYAddressGenerator sample_crypto sample_secp256k1 False
              sample_entropy = Some (Inr w, r)"
    by blast
  have l: "length (replicate 31 0 @ [0xee :: byte]) = 32"
    by simp
  from wallet_round_trip [of new_LBRYAddressGenerator sample_crypto sample_secp256k1
      "replicate 31 0 @ [0xee]" False sample_entropy] g v l
  show ?thesis by blast
qed

text \<open>
  Claim C8: for a key that verifies, \<open>createAddress(getPublicKey(k), n)\<close> returns an
  address, and every wallet of that key and network carries this address, whatever
  the state of the entropy source that drew the key and whatever form the key was given in.
\<close>

theorem address_deterministic:
  "privateKeyVerify secp k \<longrightarrow>
     (\<exists>a. (case getPublicKey secp k of Inl e \<Rightarrow> Inl e | Inr pk \<Rightarrow> createAddress this c pk n)
            = Inr a
        \<and> (\<forall>rnd w r. generateWallet this c secp n rnd = Some (Inr w, r)
              \<and> privateKey w = toString_hex k \<longrightarrow> address w = a)
        \<and> (\<forall>inp w. fromPrivateKey this c secp inp n = Inr w
              \<and> privateKey w = toString_hex k \<longrightarrow> address w = a))"
proof
  assume v: "privateKeyVerify secp k"
  obtain a where a: "createAddress this c (publicKeyCreate secp k) n = Inr a"
    using createAddress_total by blast
  have 1: "(case getPublicKey secp k of Inl e \<Rightarrow> Inl e | Inr pk \<Rightarrow> createAddress this c pk n)
      = Inr a"
    using v a by (simp add: getPublicKey_def)
  have 2: "address w = a"
    if "generateWallet this c secp n rnd = Some (Inr w, r)" "privateKey w = toString_hex k"
    for rnd w r
  proof -
    from generateWallet_Some [OF that(1)] obtain sk a'
      where a': "createAddress this c (publicKeyCreate secp sk) n = Inr a'"
        and w: "w = \<lparr>privateKey = toString_hex sk,
                  publicKey = Uint8Array_toString (publicKeyCreate secp sk),
                  address = a',
                  network = (if n then ''testnet'' else ''mainnet'')\<rparr>"
      by auto
    from w that(2) have "sk = k"
      by (simp add: toString_hex_inject)
    with a a' w show ?thesis by simp
  qed
  have 3: "address w = a"
    if "fromPrivateKey this c secp inp n = Inr w" "privateKey w = toString_hex k"
    for inp w
  proof -
    from fromPrivateKey_Inr [OF that(1)] obtain sk
      where "privateKey w = toString_hex sk"
        and "createAddress this c (publicKeyCreate secp sk) n = Inr (address w)"
      by blast
    with that(2) a show ?thesis
      by (simp add: toString_hex_inject)
  qed
  from 1 2 3 show "\<exists>a. (case getPublicKey secp k of Inl e \<Rightarrow> Inl e
        | Inr pk \<Rightarrow> createAddress this c pk n) = Inr a
        \<and> (\<forall>rnd w r. generateWallet this c secp n rnd = Some (Inr w, r)
              \<and> privateKey w = toString_hex k \<longrightarrow> address w = a)
        \<and> (\<forall>inp w. fromPrivateKey this c secp inp n = Inr w
              \<and> privateKey w = toString_hex k \<longrightarrow> address w = a)"
    by blast
qed

theorem address_deterministic_witness:
  "privateKeyVerify sample_secp256k1 (replicate 31 0 @ [0xee])
   \<and> (\<exists>a. (case getPublicKey sample_secp256k1 (replicate 31 0 @ [0xee]) of
              Inl e \<Rightarrow> Inl e
            | Inr pk \<Rightarrow> createAddress new_LBRYAddressGenerator sample_crypto pk True) = Inr a
         \<and> (\<exists>w r. generateWallet new_LBRYAddressGenerator sample_crypto sample_secp256k1 True
                sample_entropy = Some (Inr w, r)
              \<and> privateKey w = toString_hex (replicate 31 0 @ [0xee]) \<and> address w = a)
         \<and> (\<exists>w. fromPrivateKey new_LBRYAddressGenerator sample_crypto sample_secp256k1
                (Buf (replicate 31 0 @ [0xee])) True = Inr w
              \<and> privateKey w = toString_hex (replicate 31 0 @ [0xee]) \<and> address w = a))"
proof -
  let ?k = "replicate 31 0 @ [0xee :: byte]"
  have v: "privateKeyVerify sample_secp256k1 ?k"
    by (simp add: sample_privateKeyVerify)
  from address_deterministic [of sample_secp256k1 ?k new_LBRYAddressGenerator sample_crypto True] v
  obtain a where a: "(case getPublicKey sample_secp256k1 ?k of
              Inl e \<Rightarrow> Inl e
            | Inr pk \<Rightarrow> createAddress new_LBRYAddressGenerator sample_crypto pk True) = Inr a"
    and g: "\<And>rnd w r. generateWallet new_LBRYAddressGenerator sample_crypto sample_secp256k1 True
                rnd = Some (Inr w, r) \<Longrightarrow> privateKey w = toString_hex ?k \<Longrightarrow> address w = a"
    and f: "\<And>inp w. fromPrivateKey new_LBRYAddressGenerator sample_crypto sample_secp256k1
                inp True = Inr w \<Longrightarrow> privateKey w = toString_hex ?k \<Longrightarrow> address w = a"
    by blast
  obtain w r where gw: "generateWallet new_LBRYAddressGenerator sample_crypto sample_secp256k1
      True sample_entropy = Some (Inr w, r)"
    and pw: "privateKey w = toString_hex ?k"
  proof -
    obtain x where x: "createAddress new_LBRYAddressGenerator sample_crypto
        (publicKeyCreate sample_secp256k1 ?k) True = Inr x"
      using createAddress_total by blast
    show ?thesis
      by (rule that [of "\<lparr>privateKey = toString_hex ?k,
                  publicKey = Uint8Array_toString (publicKeyCreate sample_secp256k1 ?k),
                  address = x, network = ''testnet''\<rparr>" "sconst 0"])
        (simp_all add: generateWallet_def sample_generatePrivateKey getPublicKey_def v x)
  qed
  obtain w' where fw: "fromPrivateKey new_LBRYAddressGenerator sample_crypto sample_secp256k1
        (Buf ?k) True = Inr w'" and pw': "privateKey w' = toString_hex ?k"
  proof -
    obtain x where x: "createAddress new_LBRYAddressGenerator sample_crypto
        (publicKeyCreate sample_secp256k1 ?k) True = Inr x"
      using createAddress_total by blast
    have "length ?k = 32" by simp
    note fromPrivateKey_Buf [OF this v x]
    then show ?thesis
      by (rule that) simp
  qed
  from g [OF gw pw] f [OF fw pw'] a v gw pw fw pw' show ?thesis
    by blast
qed

section \<open>The model on a real key\<close>

text \<open>
  Test vectors: the digests of \<open>abc\<close>, and the public key of the private key 1,
  which is the generator of the curve.
\<close>

lemma SHA256_abc:
  "SHA256 [0x61, 0x62, 0x63] =
     [0xba, 0x78, 0x16, 0xbf, 0x8f, 0x01, 0xcf, 0xea, 0x41, 0x41, 0x40,
      0xde, 0x5d, 0xae, 0x22, 0x23, 0xb0, 0x03, 0x61, 0xa3, 0x96, 0x17,
      0x7a, 0x9c, 0xb4, 0x10, 0xff, 0x61, 0xf2, 0x00, 0x15, 0xad]"
  by code_simp

lemma RIPEMD160_abc:
  "RIPEMD160 [0x61, 0x62, 0x63] =
     [0x8e, 0xb2, 0x08, 0xf7, 0xe0, 0x5d, 0x98, 0x7a, 0x9b, 0x04, 0x4a,
      0x8e, 0x98, 0xc6, 0xb0, 0x87, 0xf1, 0x5a, 0x0b, 0xfc]"
  by code_simp

lemma secp256k1_generator:
  "secp256k1_publicKeyCreate (replicate 31 0 @ [1]) =
     [0x02, 0x79, 0xbe, 0x66, 0x7e, 0xf9, 0xdc, 0xbb, 0xac, 0x55, 0xa0,
      0x62, 0x95, 0xce, 0x87, 0x0b, 0x07, 0x02, 0x9b, 0xfc, 0xdb, 0x2d,
      0xce, 0x28, 0xd9, 0x59, 0xf2, 0x81, 0x5b, 0x16, 0xf8, 0x17, 0x98]"
proof -
  have "int (be_value (replicate 31 0 @ [1])) = 1"
    by (simp add: be_value_leading_zeros be_value_single)
  moreover have "compressed (ec_mul 1 secp256k1_G) =
     [0x02, 0x79, 0xbe, 0x66, 0x7e, 0xf9, 0xdc, 0xbb, 0xac, 0x55, 0xa0,
      0x62, 0x95, 0xce, 0x87, 0x0b, 0x07, 0x02, 0x9b, 0xfc, 0xdb, 0x2d,
      0xce, 0x28, 0xd9, 0x59, 0xf2, 0x81, 0x5b, 0x16, 0xf8, 0x17, 0x98]"
    by code_simp
  ultimately show ?thesis
    by (simp only: secp256k1_publicKeyCreate_def)
qed

lemma example_publicKeyCreate:
  "secp256k1_publicKeyCreate example_privateKey = example_publicKey"
proof -
  have "int (be_value example_privateKey) = 12"
    by (simp add: example_privateKey_def be_value_leading_zeros be_value_single)
  moreover have "compressed (ec_mul 12 secp256k1_G) = example_publicKey"
    by code_simp
  ultimately show ?thesis
    by (simp only: secp256k1_publicKeyCreate_def)
qed

lemma example_privateKeyVerify: "privateKeyVerify node_secp256k1 example_privateKey"
  by (simp add: node_secp256k1_def example_privateKey_def be_value_leading_zeros
      be_value_single secp256k1_order_def)

lemma example_getPublicKey:
  "getPublicKey node_secp256k1 example_privateKey = Inr example_publicKey"
  using example_privateKeyVerify example_publicKeyCreate
  by (simp add: getPublicKey_def node_secp256k1_def)

lemma example_sha256:
  "SHA256 example_publicKey =
     [0x77, 0x93, 0xf5, 0x4c, 0xf2, 0x44, 0x63, 0x53, 0x5e, 0xc6, 0x73,
      0x8f, 0x7a, 0xfe, 0x19, 0x84, 0xc1, 0x28, 0x39, 0x81, 0x82, 0xa5,
      0x04, 0x6c, 0xb0, 0x06, 0xf4, 0xb6, 0xe8, 0x9a, 0xf8, 0x17]"
  by code_simp

lemma example_ripemd160:
  "RIPEMD160
     [0x77, 0x93, 0xf5, 0x4c, 0xf2, 0x44, 0x63, 0x53, 0x5e, 0xc6, 0x73,
      0x8f, 0x7a, 0xfe, 0x19, 0x84, 0xc1, 0x28, 0x39, 0x81, 0x82, 0xa5,
      0x04, 0x6c, 0xb0, 0x06, 0xf4, 0xb6, 0xe8, 0x9a, 0xf8, 0x17] =
     [0xdd, 0x10, 0x0b, 0xe7, 0xd9, 0xae, 0xa5, 0x72, 0x11, 0x58, 0xeb,
      0xde, 0x6d, 0x6a, 0x1f, 0xd8, 0xff, 0xf9, 0x3b, 0xb1]"
  by code_simp

lemma example_checksum_1:
  "SHA256
     [0x6f, 0xdd, 0x10, 0x0b, 0xe7, 0xd9, 0xae, 0xa5, 0x72, 0x11, 0x58,
      0xeb, 0xde, 0x6d, 0x6a, 0x1f, 0xd8, 0xff, 0xf9, 0x3b, 0xb1] =
     [0x26, 0x6e, 0x6b, 0xf4, 0x5a, 0x43, 0xd0, 0xc4, 0xc0, 0xc8, 0x82,
      0xe1, 0x89, 0x3c, 0x81, 0x4e, 0xc8, 0x73, 0x6f, 0xcc, 0xdd, 0xa6,
      0xd8, 0x7b, 0xa8, 0x36, 0xc9, 0x10, 0x1d, 0xcb, 0xba, 0xf0]"
  by code_simp

lemma example_checksum_2:
  "SHA256
     [0x26, 0x6e, 0x6b, 0xf4, 0x5a, 0x43, 0xd0, 0xc4, 0xc0, 0xc8, 0x82,
      0xe1, 0x89, 0x3c, 0x81, 0x4e, 0xc8, 0x73, 0x6f, 0xcc, 0xdd, 0xa6,
      0xd8, 0x7b, 0xa8, 0x36, 0xc9, 0x10, 0x1d, 0xcb, 0xba, 0xf0] =
     [0xe6, 0x7a, 0xab, 0x3b, 0x85, 0x40, 0x7e, 0x93, 0xc4, 0xf4, 0xb2,
      0xea, 0x28, 0x55, 0x19, 0x6e, 0xa9, 0xe3, 0xdf, 0xdd, 0x70, 0x2d,
      0x11, 0xdf, 0xd7, 0x6e, 0x34, 0x05, 0xff, 0x2c, 0x57, 0xfd]"
  by code_simp

lemma example_base58Encode:
  "base58Encode
     [0x6f, 0xdd, 0x10, 0x0b, 0xe7, 0xd9, 0xae, 0xa5, 0x72, 0x11, 0x58,
      0xeb, 0xde, 0x6d, 0x6a, 0x1f, 0xd8, 0xff, 0xf9, 0x3b, 0xb1, 0xe6,
      0x7a, 0xab, 0x3b] =
     Inr ''n1fprNxRhWrpkJ34A4cNsSZbHsnzhob2KL''"
  by code_simp

lemma example_createAddress:
  "createAddress new_LBRYAddressGenerator node_crypto example_publicKey True =
     Inr ''n1fprNxRhWrpkJ34A4cNsSZbHsnzhob2KL''"
  by (simp add: createAddress_def hash160_def doubleSha256_def node_crypto_def
      new_LBRYAddressGenerator_def example_sha256 example_ripemd160 example_checksum_1
      example_checksum_2 example_base58Encode)

text \<open>
  Claim C6: \<open>validateAddress\<close> rejects every string that starts with \<open>n\<close>, and
  \<open>createAddress\<close> builds such an address: the private key 12 verifies, its
  public key gives the testnet address \<open>n1fprNxRhWrpkJ34A4cNsSZbHsnzhob2KL\<close>, by
  \<open>createAddress\<close> and in the wallet of \<open>fromPrivateKey\<close>, and the check
  rejects it.
\<close>

theorem testnet_n_rejected:
  "(\<forall>s. \<not> validateAddress (CHR ''n'' # s))
   \<and> privateKeyVerify node_secp256k1 example_privateKey
   \<and> getPublicKey node_secp256k1 example_privateKey = Inr example_publicKey
   \<and> createAddress new_LBRYAddressGenerator node_crypto example_publicKey True
       = Inr ''n1fprNxRhWrpkJ34A4cNsSZbHsnzhob2KL''
   \<and> (\<exists>w. fromPrivateKey new_LBRYAddressGenerator node_crypto node_secp256k1
              (Buf example_privateKey) True = Inr w
          \<and> address w = ''n1fprNxRhWrpkJ34A4cNsSZbHsnzhob2KL'')
   \<and> \<not> validateAddress ''n1fprNxRhWrpkJ34A4cNsSZbHsnzhob2KL''"
proof -
  have rej: "\<not> validateAddress (CHR ''n'' # s)" for s
    by (simp add: validateAddress_def)
  have l: "length example_privateKey = 32"
    by (simp add: example_privateKey_def)
  have "publicKeyCreate node_secp256k1 example_privateKey = example_publicKey"
    using example_publicKeyCreate by (simp add: node_secp256k1_def)
  with example_createAddress
  have "createAddress new_LBRYAddressGenerator node_crypto
      (publicKeyCreate node_secp256k1 example_privateKey) True
        = Inr ''n1fprNxRhWrpkJ34A4cNsSZbHsnzhob2KL''"
    by simp
  from fromPrivateKey_Buf [OF l example_privateKeyVerify this]
  have "\<exists>w. fromPrivateKey new_LBRYAddressGenerator node_crypto node_secp256k1
              (Buf example_privateKey) True = Inr w
          \<and> address w = ''n1fprNxRhWrpkJ34A4cNsSZbHsnzhob2KL''"
    by simp
  with rej example_privateKeyVerify example_getPublicKey example_createAddress
  show ?thesis
    by simp
qed

end
